theory Spec2Isabelle
  imports Main
begin

section \<open>The Aurora client factory (apache/aurora/client/factory.py)\<close>

subsection \<open>Values and collaborators\<close>

text \<open>
  Modelled from the spec: the class \<open>Cluster\<close> (apache.aurora.common.cluster) is imported by
  factory.py and not defined there. The spec calls it a cluster descriptor, a named target
  environment. factory.py observes two things of such an object: its attribute \<open>name\<close> and
  the text that \<open>'%s' % cluster\<close> renders for it; the field \<open>endpoint\<close> stands for the
  connection parameters the descriptor carries.
\<close>

record Cluster =
  name :: string
  printed :: string
  endpoint :: string

text \<open>
  The Python values that reach this file: strings (cluster names, the user agent, the
  verbosity setting), booleans (the verbose flag) and cluster objects.
\<close>

datatype pyval = Str string | Bool bool | Obj Cluster

text \<open>The text \<open>'%s' % v\<close> puts in place of \<open>%s\<close>.\<close>

fun py_str :: "pyval \<Rightarrow> string" where
  "py_str (Str s) = s"
| "py_str (Bool b) = (if b then ''True'' else ''False'')"
| "py_str (Obj c) = printed c"

text \<open>\<open>isinstance(v, Cluster)\<close>.\<close>

fun isinstance_Cluster :: "pyval \<Rightarrow> bool" where
  "isinstance_Cluster (Obj c) = True"
| "isinstance_Cluster v = False"

text \<open>
  \<open>v.name\<close>, evaluated by \<open>make_client\<close> only where \<open>isinstance(v, Cluster)\<close> holds: the
  source never reads the attribute of another value, and the model leaves such a value as
  it is.
\<close>

fun dot_name :: "pyval \<Rightarrow> pyval" where
  "dot_name (Obj c) = Str (name c)"
| "dot_name v = v"

text \<open>
  The two things a run of this file fails with: \<open>SystemExit\<close>, carrying the diagnostic
  that \<open>die\<close> reports, and the \<open>KeyError\<close> of indexing a mapping at a key it does not hold.
\<close>

datatype error = SystemExit string | KeyError pyval

text \<open>
  Modelled from the spec: \<open>die\<close> is imported from \<open>.base\<close>, which is not part of this
  file. The spec describes it as the primitive that emits the diagnostic and terminates the
  current operation; it does not return to its caller.
\<close>

definition die :: "string \<Rightarrow> error + 'a" where
  "die msg = Inl (SystemExit msg)"

text \<open>
  Modelled from the spec: the registry \<open>CLUSTERS\<close> (apache.aurora.common.clusters) is a
  read-only mapping with a membership test and a lookup. The key is whatever value
  the caller supplies; a registry filled as the spec describes holds names only.
\<close>

type_synonym registry = "pyval \<rightharpoonup> Cluster"

definition contains :: "registry \<Rightarrow> pyval \<Rightarrow> bool" where
  "contains reg k = (reg k \<noteq> None)"

definition getitem :: "registry \<Rightarrow> pyval \<Rightarrow> error + Cluster" where
  "getitem reg k = (case reg k of None \<Rightarrow> Inl (KeyError k) | Some d \<Rightarrow> Inr d)"

text \<open>
  The ambient state the file reads: the options object of \<open>app.get_options()\<close>, as the map
  of its attributes, and the registry.
\<close>

record env =
  options :: "string \<rightharpoonup> pyval"
  CLUSTERS :: registry

text \<open>\<open>getattr(obj, attr, default)\<close>.\<close>

definition getattr :: "(string \<rightharpoonup> pyval) \<Rightarrow> string \<Rightarrow> pyval \<Rightarrow> pyval" where
  "getattr obj attr dflt = (case obj attr of None \<Rightarrow> dflt | Some v \<Rightarrow> v)"

text \<open>The two client implementations that the file chooses between.\<close>

datatype base_class = AuroraClientAPI | HookedAuroraClientAPI

text \<open>
  Modelled from the spec: the constructors of \<open>AuroraClientAPI\<close> and
  \<open>HookedAuroraClientAPI\<close> are not part of this file. The spec gives both the same
  signature (descriptor, user agent, verbose, extras) and lets the instance carry what it
  was constructed with, so a client instance is the record of its class and of the
  arguments its constructor was invoked with.
\<close>

record client =
  client_class :: base_class
  client_cluster :: Cluster
  client_args :: "pyval list"
  client_kw :: "string \<rightharpoonup> pyval"

definition base_init ::
  "base_class \<Rightarrow> Cluster \<Rightarrow> pyval list \<Rightarrow> (string \<rightharpoonup> pyval) \<Rightarrow> client" where
  "base_init base d args kw =
     \<lparr>client_class = base, client_cluster = d, client_args = args, client_kw = kw\<rparr>"

definition client_user_agent :: "client \<Rightarrow> pyval option" where
  "client_user_agent c = client_kw c ''user_agent''"

definition client_verbose :: "client \<Rightarrow> pyval option" where
  "client_verbose c = client_kw c ''verbose''"

subsection \<open>make\_client\_factory\<close>

text \<open>
  The class that \<open>make_client_factory\<close> defines on each call: a subclass of the chosen
  base class.
\<close>

datatype pyclass = TwitterAuroraClientAPI base_class

text \<open>
  \<open>TwitterAuroraClientAPI.__init__(self, cluster, *args, **kw)\<close>: the membership test, the
  \<open>die\<close> behind it, then the indexing of the registry and the call of the base
  constructor. \<open>CLUSTERS\<close> is a global, read when the constructor runs.
\<close>

definition TwitterAuroraClientAPI_init ::
  "env \<Rightarrow> base_class \<Rightarrow> pyval \<Rightarrow> pyval list \<Rightarrow> (string \<rightharpoonup> pyval) \<Rightarrow> error + client" where
  "TwitterAuroraClientAPI_init e base cl args kw =
     (if \<not> contains (CLUSTERS e) cl then die (''Unknown cluster: '' @ py_str cl)
      else case getitem (CLUSTERS e) cl of
             Inl err \<Rightarrow> Inl err
           | Inr d \<Rightarrow> Inr (base_init base d args kw))"

text \<open>Calling a class constructs an instance through its \<open>__init__\<close>.\<close>

fun construct ::
  "env \<Rightarrow> pyclass \<Rightarrow> pyval \<Rightarrow> pyval list \<Rightarrow> (string \<rightharpoonup> pyval) \<Rightarrow> error + client" where
  "construct e (TwitterAuroraClientAPI base) cl args kw =
     TwitterAuroraClientAPI_init e base cl args kw"

text \<open>
  A \<open>functools.partial\<close> object with no positional arguments: the callable and the stored
  keyword arguments. Calling it merges the stored keyword arguments with those of the call,
  the call's taking precedence, as \<open>functools.partial\<close> does.
\<close>

record partial =
  partial_func :: pyclass
  partial_keywords :: "string \<rightharpoonup> pyval"

definition partial_call ::
  "env \<Rightarrow> partial \<Rightarrow> pyval \<Rightarrow> pyval list \<Rightarrow> (string \<rightharpoonup> pyval) \<Rightarrow> error + client" where
  "partial_call e p cl args kw = construct e (partial_func p) cl args (partial_keywords p ++ kw)"

text \<open>
  \<open>make_client_factory(user_agent, enable_hooks=True)\<close>; \<open>None\<close> is the omitted argument.
\<close>

definition make_client_factory :: "env \<Rightarrow> string \<Rightarrow> bool option \<Rightarrow> partial" where
  "make_client_factory e user_agent enable_hooks_arg =
     (let enable_hooks = (case enable_hooks_arg of None \<Rightarrow> True | Some b \<Rightarrow> b);
          verbose = (getattr (options e) ''verbosity'' (Str ''normal'') = Str ''verbose'');
          base = (if enable_hooks then HookedAuroraClientAPI else AuroraClientAPI)
      in \<lparr>partial_func = TwitterAuroraClientAPI base,
          partial_keywords = [''user_agent'' \<mapsto> Str user_agent, ''verbose'' \<mapsto> Bool verbose]\<rparr>)"

subsection \<open>make\_client\<close>

text \<open>\<open>make_client(cluster, user_agent, enable_hooks=True)\<close>.\<close>

definition make_client :: "env \<Rightarrow> pyval \<Rightarrow> string \<Rightarrow> bool option \<Rightarrow> error + client" where
  "make_client e cl user_agent enable_hooks_arg =
     (let enable_hooks = (case enable_hooks_arg of None \<Rightarrow> True | Some b \<Rightarrow> b);
          factory = make_client_factory e user_agent (Some enable_hooks)
      in partial_call e factory (if isinstance_Cluster cl then dot_name cl else cl) [] Map.empty)"

subsection \<open>The calls to die and to the base constructor\<close>

text \<open>
  Which of the two imported callables a run invokes, in order: \<open>die\<close> with its message
  (line 38) or the constructor of the base class with its arguments (line 39). \<open>die\<close>
  does not return, so nothing is called after it; a lookup that raised would call
  neither. Each function below follows the control flow of the function it traces.
\<close>

datatype call =
    Die_called string
  | Base_init_called base_class Cluster "pyval list" "string \<rightharpoonup> pyval"

definition TwitterAuroraClientAPI_init_calls ::
  "env \<Rightarrow> base_class \<Rightarrow> pyval \<Rightarrow> pyval list \<Rightarrow> (string \<rightharpoonup> pyval) \<Rightarrow> call list" where
  "TwitterAuroraClientAPI_init_calls e base cl args kw =
     (if \<not> contains (CLUSTERS e) cl then [Die_called (''Unknown cluster: '' @ py_str cl)]
      else case getitem (CLUSTERS e) cl of
             Inl err \<Rightarrow> []
           | Inr d \<Rightarrow> [Base_init_called base d args kw])"




subsection \<open>The spec's description of create\_client\<close>

text \<open>
  The second definition, from the spec's words and not from the code, for comparison
  with \<open>make_client\<close>. The factory configuration is the immutable bundle of user agent,
  verbose flag and hook enablement; creating a factory reads the ambient verbosity, "normal"
  when unset; the bound constructor looks the name up in the registry, fails with the
  diagnostic naming the unknown cluster when it is absent, and otherwise instantiates the
  selected implementation with the descriptor and the captured values; create\_client is
  the factory applied at once to the reference, whose name is extracted when it is an
  object.
\<close>

record FactoryConfiguration =
  cfg_user_agent :: string
  cfg_verbose :: bool
  cfg_hooks_enabled :: bool

definition create_factory_spec :: "pyval option \<Rightarrow> string \<Rightarrow> bool \<Rightarrow> FactoryConfiguration" where
  "create_factory_spec ambient ua hooks =
     \<lparr>cfg_user_agent = ua,
      cfg_verbose = ((case ambient of None \<Rightarrow> Str ''normal'' | Some v \<Rightarrow> v) = Str ''verbose''),
      cfg_hooks_enabled = hooks\<rparr>"

definition reference_name_spec :: "pyval \<Rightarrow> pyval" where
  "reference_name_spec r = (case r of Obj c \<Rightarrow> Str (name c) | Str s \<Rightarrow> Str s | Bool b \<Rightarrow> Bool b)"

definition bound_constructor_spec ::
  "registry \<Rightarrow> FactoryConfiguration \<Rightarrow> pyval \<Rightarrow> pyval list \<Rightarrow> error + client" where
  "bound_constructor_spec reg cfg nm extras =
     (case reg nm of
        None \<Rightarrow> Inl (SystemExit (''Unknown cluster: '' @ py_str nm))
      | Some d \<Rightarrow>
          Inr \<lparr>client_class =
                 (if cfg_hooks_enabled cfg then HookedAuroraClientAPI else AuroraClientAPI),
               client_cluster = d,
               client_args = extras,
               client_kw = [''user_agent'' \<mapsto> Str (cfg_user_agent cfg),
                            ''verbose'' \<mapsto> Bool (cfg_verbose cfg)]\<rparr>)"

definition create_client_spec ::
  "registry \<Rightarrow> pyval option \<Rightarrow> pyval \<Rightarrow> string \<Rightarrow> bool \<Rightarrow> error + client" where
  "create_client_spec reg ambient r ua hooks =
     bound_constructor_spec reg (create_factory_spec ambient ua hooks) (reference_name_spec r) []"

subsection \<open>Concrete inputs\<close>

definition west :: Cluster where
  "west = \<lparr>name = ''west'', printed = ''{name: west}'', endpoint = ''zk-west:2181''\<rparr>"

definition east :: Cluster where
  "east = \<lparr>name = ''east'', printed = ''{name: east}'', endpoint = ''zk-east:2181''\<rparr>"

definition registry0 :: registry where
  "registry0 = [Str ''west'' \<mapsto> west, Str ''east'' \<mapsto> east]"

definition env_quiet :: env where
  "env_quiet = \<lparr>options = Map.empty, CLUSTERS = registry0\<rparr>"

definition env_verbose :: env where
  "env_verbose = \<lparr>options = [''verbosity'' \<mapsto> Str ''verbose''], CLUSTERS = registry0\<rparr>"

section \<open>Properties\<close>

subsection \<open>The bound constructor, by cases on the registry\<close>

lemma init_unknown:
  "CLUSTERS e cl = None \<Longrightarrow>
   TwitterAuroraClientAPI_init e base cl args kw = Inl (SystemExit (''Unknown cluster: '' @ py_str cl))"
  by (simp add: TwitterAuroraClientAPI_init_def contains_def die_def)

lemma init_known:
  "CLUSTERS e cl = Some d \<Longrightarrow>
   TwitterAuroraClientAPI_init e base cl args kw = Inr (base_init base d args kw)"
  by (simp add: TwitterAuroraClientAPI_init_def contains_def getitem_def)

lemma factory_func:
  "partial_func (make_client_factory e ua eh) =
     TwitterAuroraClientAPI (if eh = Some False then AuroraClientAPI else HookedAuroraClientAPI)"
  by (cases eh) (auto simp: make_client_factory_def Let_def)

lemma factory_keywords:
  "partial_keywords (make_client_factory e ua eh) =
     [''user_agent'' \<mapsto> Str ua,
      ''verbose'' \<mapsto> Bool (options e ''verbosity'' = Some (Str ''verbose''))]"
  by (auto simp: make_client_factory_def Let_def getattr_def split: option.splits)

lemma factory_call_unknown:
  "CLUSTERS e cl = None \<Longrightarrow>
   partial_call e (make_client_factory e0 ua eh) cl args kw =
     Inl (SystemExit (''Unknown cluster: '' @ py_str cl))"
  by (simp add: partial_call_def factory_func init_unknown)

lemma factory_call_known:
  "CLUSTERS e cl = Some d \<Longrightarrow>
   partial_call e (make_client_factory e0 ua eh) cl args kw =
     Inr (base_init (if eh = Some False then AuroraClientAPI else HookedAuroraClientAPI) d args
            (partial_keywords (make_client_factory e0 ua eh) ++ kw))"
  by (simp add: partial_call_def factory_func init_known)

lemma make_client_unfold:
  "make_client e cl ua eh =
     partial_call e
       (make_client_factory e ua (Some (case eh of None \<Rightarrow> True | Some b \<Rightarrow> b)))
       (dot_name cl) [] Map.empty"
  by (cases cl) (simp_all add: make_client_def Let_def)

lemma factory_call_result:
  assumes "partial_call e (make_client_factory e0 ua eh) k args kw = Inr cl"
  shows "\<exists>d. CLUSTERS e k = Some d \<and>
           cl = base_init (if eh = Some False then AuroraClientAPI else HookedAuroraClientAPI)
                  d args (partial_keywords (make_client_factory e0 ua eh) ++ kw)"
proof (cases "CLUSTERS e k")
  case None
  from factory_call_unknown [OF None] assms show ?thesis by simp
next
  case (Some d)
  from factory_call_known [OF Some, of e0 ua eh args kw] assms Some show ?thesis by simp
qed

lemma calls_agree_with_outcome:
  "TwitterAuroraClientAPI_init e base cl args kw =
     (case TwitterAuroraClientAPI_init_calls e base cl args kw of
        [Die_called msg] \<Rightarrow> Inl (SystemExit msg)
      | [Base_init_called b d a w] \<Rightarrow> Inr (base_init b d a w)
      | _ \<Rightarrow> Inl (KeyError cl))"
  by (cases "CLUSTERS e cl")
    (simp_all add: TwitterAuroraClientAPI_init_def TwitterAuroraClientAPI_init_calls_def
      contains_def getitem_def die_def)



subsection \<open>Unknown clusters\<close>




subsection \<open>Registered clusters\<close>

text \<open>
  Claim C2. For a cluster name present in the registry, \<open>make_client\<close> (with any user agent,
  "agent/1.0" among them) returns a client, and the descriptor the client is bound to is
  the registry's entry for that name.
\<close>

theorem valid_cluster_bound:
  assumes "contains (CLUSTERS e) (Str c)"
  shows "\<exists>cl. make_client e (Str c) ua eh = Inr cl
            \<and> CLUSTERS e (Str c) = Some (client_cluster cl)"
proof -
  from assms obtain d where d: "CLUSTERS e (Str c) = Some d"
    by (auto simp: contains_def)
  show ?thesis
    using factory_call_known [OF d] by (simp add: make_client_unfold d base_init_def)
qed

text \<open>
  Witness for C2: west, with the user agent "agent/1.0".
\<close>

theorem valid_cluster_bound_witness:
  "contains (CLUSTERS env_quiet) (Str ''west'')
   \<and> (\<exists>cl. make_client env_quiet (Str ''west'') ''agent/1.0'' None = Inr cl
          \<and> CLUSTERS env_quiet (Str ''west'') = Some (client_cluster cl))"
proof -
  have h: "contains (CLUSTERS env_quiet) (Str ''west'')"
    by (simp add: contains_def env_quiet_def registry0_def)
  from valid_cluster_bound [OF h] show ?thesis using h by blast
qed

subsection \<open>Names and cluster objects\<close>

text \<open>
  Claim C3, as the spec states it, fails: the bound constructor tests its argument itself
  for membership in the registry and does not take a name out of a cluster object. With
  west registered under its name, the bound constructor succeeds on the name and reports
  an unknown cluster on the object west.
\<close>

theorem bound_constructor_object_counterexample:
  "CLUSTERS env_quiet (Str (name west)) = Some west
   \<and> partial_call env_quiet (make_client_factory env_quiet ''agent/1.0'' None)
        (Str ''west'') [] Map.empty
       = Inr (base_init HookedAuroraClientAPI west []
               [''user_agent'' \<mapsto> Str ''agent/1.0'', ''verbose'' \<mapsto> Bool False])
   \<and> partial_call env_quiet (make_client_factory env_quiet ''agent/1.0'' None)
        (Obj west) [] Map.empty
       = Inl (SystemExit (''Unknown cluster: '' @ printed west))"
proof -
  have a: "CLUSTERS env_quiet (Str ''west'') = Some west"
    by (simp add: env_quiet_def registry0_def)
  have b: "CLUSTERS env_quiet (Obj west) = None"
    by (simp add: env_quiet_def registry0_def)
  have c: "options env_quiet ''verbosity'' = None" by (simp add: env_quiet_def)
  have n: "name west = ''west''" by (simp add: west_def)
  show ?thesis
    by (simp only: n a factory_call_known [OF a] factory_call_unknown [OF b]
        factory_keywords c) simp
qed

text \<open>
  Claim C3, amended. The bound constructor looks up its argument as it is given: its
  outcome is decided by the registry's entry at that very key, a client bound to the entry
  when there is one and the unknown-cluster diagnostic otherwise. The name of a cluster
  object is extracted by \<open>make_client\<close> only, which then calls the bound constructor with
  the name.
\<close>

theorem bound_constructor_key:
  "partial_call e (make_client_factory e0 ua eh) k args kw =
     (case CLUSTERS e k of
        None \<Rightarrow> Inl (SystemExit (''Unknown cluster: '' @ py_str k))
      | Some d \<Rightarrow>
          Inr (base_init (if eh = Some False then AuroraClientAPI else HookedAuroraClientAPI)
                 d args (partial_keywords (make_client_factory e0 ua eh) ++ kw)))
   \<and> make_client e (Obj c) ua eh =
       partial_call e (make_client_factory e ua eh) (Str (name c)) [] Map.empty"
proof -
  have "make_client_factory e ua (Some (case eh of None \<Rightarrow> True | Some b \<Rightarrow> b))
          = make_client_factory e ua eh"
    by (cases eh) (simp_all add: make_client_factory_def)
  then show ?thesis
    by (simp add: factory_call_known factory_call_unknown make_client_unfold
        split: option.split)
qed

text \<open>
  Claim C7. \<open>make_client\<close> on a cluster object gives the very outcome (diagnostic or
  client, with its descriptor, keywords and class) of \<open>make_client\<close> on the object's name;
  in particular for an object named west and the string west.
\<close>

theorem reference_normalization:
  "make_client e (Obj c) ua eh = make_client e (Str (name c)) ua eh
   \<and> make_client e (Obj (c\<lparr>name := ''west''\<rparr>)) ua eh = make_client e (Str ''west'') ua eh"
  by (simp add: make_client_def)

subsection \<open>The lookup behind the membership test\<close>

text \<open>
  Claim C10. In the bound constructor the indexing of the registry comes after the
  membership test only: the outcome is never the \<open>KeyError\<close> of the lookup; a failure is
  the unknown-cluster diagnostic, and then the key is not in the registry; a success has
  the key in the registry, and the client is constructed on the entry found at that key.
\<close>

theorem lookup_guarded_by_membership:
  "(\<forall>k. TwitterAuroraClientAPI_init e base cl args kw \<noteq> Inl (KeyError k)) \<and>
   (case TwitterAuroraClientAPI_init e base cl args kw of
      Inl err \<Rightarrow> err = SystemExit (''Unknown cluster: '' @ py_str cl) \<and> \<not> contains (CLUSTERS e) cl
    | Inr c \<Rightarrow> contains (CLUSTERS e) cl \<and> getitem (CLUSTERS e) cl = Inr (client_cluster c)
               \<and> c = base_init base (client_cluster c) args kw)"
proof (cases "CLUSTERS e cl")
  case None
  then show ?thesis by (simp add: init_unknown contains_def)
next
  case (Some d)
  then show ?thesis by (simp add: init_known contains_def getitem_def base_init_def)
qed

subsection \<open>Captured configuration\<close>

text \<open>
  Claim C4, as the spec states it, fails for extra keyword arguments: the keywords of the
  call are merged over those stored in the partial object, so a call that passes its own
  \<open>user_agent\<close> constructs the client with that one. Here the factory is created with
  the user agent X and the client is constructed with Y.
\<close>

theorem keyword_override_counterexample:
  "partial_call env_quiet (make_client_factory env_quiet ''X'' None) (Str ''west'') []
       [''user_agent'' \<mapsto> Str ''Y'']
     = Inr (base_init HookedAuroraClientAPI west []
             [''verbose'' \<mapsto> Bool False, ''user_agent'' \<mapsto> Str ''Y''])
   \<and> client_user_agent (base_init HookedAuroraClientAPI west []
             [''verbose'' \<mapsto> Bool False, ''user_agent'' \<mapsto> Str ''Y'']) = Some (Str ''Y'')"
proof -
  have a: "CLUSTERS env_quiet (Str ''west'') = Some west"
    by (simp add: env_quiet_def registry0_def)
  have c: "options env_quiet ''verbosity'' = None" by (simp add: env_quiet_def)
  have m: "[''user_agent'' \<mapsto> Str ''X'', ''verbose'' \<mapsto> Bool False] ++ [''user_agent'' \<mapsto> Str ''Y'']
           = [''verbose'' \<mapsto> Bool False, ''user_agent'' \<mapsto> Str ''Y'']"
    by (rule ext) (simp add: map_add_def)
  show ?thesis
    by (simp add: factory_call_known [OF a] factory_keywords c m
        client_user_agent_def base_init_def)
qed

text \<open>
  Claim C4, amended. Every client a bound constructor produces is constructed with the
  keywords stored at factory creation merged with those of the call: with the factory's
  user agent when the call passes no \<open>user_agent\<close> keyword, with the verbose flag captured
  at creation when the call passes no \<open>verbose\<close> keyword, with the positional extras as
  given, and bound to the registry's entry for the cluster. The environment \<open>e0\<close> of the
  factory's creation and the environment \<open>e\<close> of the call are independent.
\<close>

theorem captured_configuration:
  assumes "partial_call e (make_client_factory e0 ua eh) k args kw = Inr cl"
  shows "(kw ''user_agent'' = None \<longrightarrow> client_user_agent cl = Some (Str ua))
       \<and> (kw ''verbose'' = None \<longrightarrow>
            client_verbose cl =
              Some (Bool (getattr (options e0) ''verbosity'' (Str ''normal'') = Str ''verbose'')))
       \<and> client_kw cl = partial_keywords (make_client_factory e0 ua eh) ++ kw
       \<and> client_args cl = args
       \<and> CLUSTERS e k = Some (client_cluster cl)"
proof -
  from factory_call_result [OF assms] obtain d where
    d: "CLUSTERS e k = Some d" and
    cl: "cl = base_init (if eh = Some False then AuroraClientAPI else HookedAuroraClientAPI)
                 d args (partial_keywords (make_client_factory e0 ua eh) ++ kw)"
    by blast
  have kws: "client_kw cl = partial_keywords (make_client_factory e0 ua eh) ++ kw"
    by (simp add: cl base_init_def)
  have v: "(getattr (options e0) ''verbosity'' (Str ''normal'') = Str ''verbose'')
             = (options e0 ''verbosity'' = Some (Str ''verbose''))"
    by (simp add: getattr_def split: option.split)
  have "kw ''user_agent'' = None \<longrightarrow> client_user_agent cl = Some (Str ua)"
    by (simp add: client_user_agent_def kws factory_keywords map_add_def)
  moreover have "kw ''verbose'' = None \<longrightarrow>
            client_verbose cl =
              Some (Bool (getattr (options e0) ''verbosity'' (Str ''normal'') = Str ''verbose''))"
    by (simp add: client_verbose_def kws factory_keywords map_add_def v)
  moreover have "client_args cl = args" by (simp add: cl base_init_def)
  moreover have "CLUSTERS e k = Some (client_cluster cl)" by (simp add: d cl base_init_def)
  ultimately show ?thesis using kws by simp
qed

text \<open>
  Witness for C4: a factory created in the verbose environment with the user agent X,
  called later, in another environment, on east with one positional extra and no keyword.
\<close>

theorem captured_configuration_witness:
  "partial_call env_quiet (make_client_factory env_verbose ''X'' (Some False)) (Str ''east'')
      [Bool True] Map.empty
     = Inr (base_init AuroraClientAPI east [Bool True]
             [''user_agent'' \<mapsto> Str ''X'', ''verbose'' \<mapsto> Bool True])
   \<and> (Map.empty :: string \<rightharpoonup> pyval) ''user_agent'' = None
   \<and> (Map.empty :: string \<rightharpoonup> pyval) ''verbose'' = None
   \<and> client_user_agent (base_init AuroraClientAPI east [Bool True]
             [''user_agent'' \<mapsto> Str ''X'', ''verbose'' \<mapsto> Bool True]) = Some (Str ''X'')
   \<and> client_verbose (base_init AuroraClientAPI east [Bool True]
             [''user_agent'' \<mapsto> Str ''X'', ''verbose'' \<mapsto> Bool True]) = Some (Bool True)"
proof -
  have a: "CLUSTERS env_quiet (Str ''east'') = Some east"
    by (simp add: env_quiet_def registry0_def)
  have c: "options env_verbose ''verbosity'' = Some (Str ''verbose'')"
    by (simp add: env_verbose_def)
  have call: "partial_call env_quiet (make_client_factory env_verbose ''X'' (Some False))
      (Str ''east'') [Bool True] Map.empty
     = Inr (base_init AuroraClientAPI east [Bool True]
             [''user_agent'' \<mapsto> Str ''X'', ''verbose'' \<mapsto> Bool True])"
    by (simp add: factory_call_known [OF a] factory_keywords c)
  have g: "getattr (options env_verbose) ''verbosity'' (Str ''normal'') = Str ''verbose''"
    by (simp add: getattr_def c)
  from captured_configuration [OF call] show ?thesis using call g by simp
qed

subsection \<open>Hooks\<close>

text \<open>
  Claim C5. With \<open>enable_hooks\<close> true the factory constructs clients of the hooked class,
  with \<open>enable_hooks\<close> false of the plain class; both base constructors receive the same
  descriptor, positional extras and keywords (user agent, verbose, those of the call); an
  omitted \<open>enable_hooks\<close> is true, for \<open>make_client_factory\<close> and for \<open>make_client\<close>.
\<close>

theorem hook_toggling:
  assumes "CLUSTERS e k = Some d"
  shows "partial_call e (make_client_factory e0 ua (Some True)) k args kw
           = Inr (base_init HookedAuroraClientAPI d args
                   ([''user_agent'' \<mapsto> Str ua,
                     ''verbose'' \<mapsto> Bool (options e0 ''verbosity'' = Some (Str ''verbose''))] ++ kw))
       \<and> partial_call e (make_client_factory e0 ua (Some False)) k args kw
           = Inr (base_init AuroraClientAPI d args
                   ([''user_agent'' \<mapsto> Str ua,
                     ''verbose'' \<mapsto> Bool (options e0 ''verbosity'' = Some (Str ''verbose''))] ++ kw))
       \<and> make_client_factory e0 ua None = make_client_factory e0 ua (Some True)
       \<and> make_client e r ua None = make_client e r ua (Some True)"
proof -
  have "make_client_factory e0 ua None = make_client_factory e0 ua (Some True)"
    by (simp add: make_client_factory_def)
  moreover have "make_client e r ua None = make_client e r ua (Some True)"
    by (simp add: make_client_def)
  ultimately show ?thesis
    by (simp add: factory_call_known [OF assms] factory_keywords)
qed

text \<open>
  Witness for C5: west, registered, with no extras.
\<close>

theorem hook_toggling_witness:
  "CLUSTERS env_quiet (Str ''west'') = Some west
   \<and> partial_call env_quiet (make_client_factory env_quiet ''agent/1.0'' (Some True))
        (Str ''west'') [] Map.empty
       = Inr (base_init HookedAuroraClientAPI west []
               [''user_agent'' \<mapsto> Str ''agent/1.0'', ''verbose'' \<mapsto> Bool False])
   \<and> partial_call env_quiet (make_client_factory env_quiet ''agent/1.0'' (Some False))
        (Str ''west'') [] Map.empty
       = Inr (base_init AuroraClientAPI west []
               [''user_agent'' \<mapsto> Str ''agent/1.0'', ''verbose'' \<mapsto> Bool False])
   \<and> make_client_factory env_quiet ''agent/1.0'' None
       = make_client_factory env_quiet ''agent/1.0'' (Some True)"
proof -
  have a: "CLUSTERS env_quiet (Str ''west'') = Some west"
    by (simp add: env_quiet_def registry0_def)
  have c: "options env_quiet ''verbosity'' = None" by (simp add: env_quiet_def)
  from hook_toggling [OF a, of env_quiet "''agent/1.0''" "[]" Map.empty "Str ''west''"]
  show ?thesis using a c by simp
qed

subsection \<open>The ambient verbosity\<close>

text \<open>
  Claim C6, as the spec states it, fails in its last part: a client produced after the
  ambient setting has changed need not carry the verbose value captured at creation,
  since a \<open>verbose\<close> keyword of the call replaces the captured one. The factory below
  captures true; the call passes false.
\<close>

theorem captured_verbose_overridden_counterexample:
  "partial_keywords (make_client_factory env_verbose ''agent/1.0'' None) ''verbose''
     = Some (Bool True)
   \<and> partial_call (env_verbose\<lparr>options := Map.empty\<rparr>)
        (make_client_factory env_verbose ''agent/1.0'' None) (Str ''east'') []
        [''verbose'' \<mapsto> Bool False]
     = Inr (base_init HookedAuroraClientAPI east []
             [''user_agent'' \<mapsto> Str ''agent/1.0'', ''verbose'' \<mapsto> Bool False])
   \<and> client_verbose (base_init HookedAuroraClientAPI east []
             [''user_agent'' \<mapsto> Str ''agent/1.0'', ''verbose'' \<mapsto> Bool False])
     = Some (Bool False)"
proof -
  have a: "CLUSTERS (env_verbose\<lparr>options := Map.empty\<rparr>) (Str ''east'') = Some east"
    by (simp add: env_verbose_def registry0_def)
  have c: "options env_verbose ''verbosity'' = Some (Str ''verbose'')"
    by (simp add: env_verbose_def)
  have m: "[''user_agent'' \<mapsto> Str ''agent/1.0'', ''verbose'' \<mapsto> Bool True]
             ++ [''verbose'' \<mapsto> Bool False]
           = [''user_agent'' \<mapsto> Str ''agent/1.0'', ''verbose'' \<mapsto> Bool False]"
    by (rule ext) (simp add: map_add_def)
  show ?thesis
    by (simp add: factory_call_known [OF a] factory_keywords c m
        client_verbose_def base_init_def)
qed

text \<open>
  Claim C6, amended. The bound constructor does not read the ambient options: whatever
  the options have become after \<open>make_client_factory\<close> returned (\<open>o1\<close> in one run, \<open>o2\<close>
  in the other), the same call has the same outcome in both runs; and a client produced
  by a call that passes no \<open>verbose\<close> keyword carries the value captured at creation.
\<close>

theorem verbosity_read_once:
  "partial_call (e\<lparr>options := o1\<rparr>) (make_client_factory e ua eh) k args kw
     = partial_call (e\<lparr>options := o2\<rparr>) (make_client_factory e ua eh) k args kw
   \<and> (kw ''verbose'' = None \<longrightarrow>
        partial_call (e\<lparr>options := o1\<rparr>) (make_client_factory e ua eh) k args kw = Inr cl \<longrightarrow>
        client_verbose cl = Some (Bool (options e ''verbosity'' = Some (Str ''verbose''))))"
proof -
  have "partial_call (e\<lparr>options := o1\<rparr>) (make_client_factory e ua eh) k args kw
     = partial_call (e\<lparr>options := o2\<rparr>) (make_client_factory e ua eh) k args kw"
    by (cases "CLUSTERS e k") (simp_all add: factory_call_known factory_call_unknown)
  moreover have "client_verbose cl = Some (Bool (options e ''verbosity'' = Some (Str ''verbose'')))"
    if nokw: "kw ''verbose'' = None"
      and ok: "partial_call (e\<lparr>options := o1\<rparr>) (make_client_factory e ua eh) k args kw = Inr cl"
  proof -
    from factory_call_result [OF ok]
    have "client_kw cl = partial_keywords (make_client_factory e ua eh) ++ kw"
      by (auto simp: base_init_def)
    with nokw show ?thesis
      by (simp add: client_verbose_def factory_keywords map_add_def)
  qed
  ultimately show ?thesis by blast
qed

text \<open>
  Witness for C6: a factory created in the verbose environment, called after the setting
  was removed in one run and set to normal in the other.
\<close>

theorem verbosity_read_once_witness:
  "partial_call (env_verbose\<lparr>options := Map.empty\<rparr>)
       (make_client_factory env_verbose ''agent/1.0'' None) (Str ''east'') [] Map.empty
     = partial_call (env_verbose\<lparr>options := [''verbosity'' \<mapsto> Str ''normal'']\<rparr>)
       (make_client_factory env_verbose ''agent/1.0'' None) (Str ''east'') [] Map.empty
   \<and> (Map.empty :: string \<rightharpoonup> pyval) ''verbose'' = None
   \<and> partial_call (env_verbose\<lparr>options := Map.empty\<rparr>)
       (make_client_factory env_verbose ''agent/1.0'' None) (Str ''east'') [] Map.empty
     = Inr (base_init HookedAuroraClientAPI east []
             [''user_agent'' \<mapsto> Str ''agent/1.0'', ''verbose'' \<mapsto> Bool True])
   \<and> client_verbose (base_init HookedAuroraClientAPI east []
             [''user_agent'' \<mapsto> Str ''agent/1.0'', ''verbose'' \<mapsto> Bool True])
     = Some (Bool True)"
proof -
  have a: "CLUSTERS (env_verbose\<lparr>options := Map.empty\<rparr>) (Str ''east'') = Some east"
    by (simp add: env_verbose_def registry0_def)
  have c: "options env_verbose ''verbosity'' = Some (Str ''verbose'')"
    by (simp add: env_verbose_def)
  have call: "partial_call (env_verbose\<lparr>options := Map.empty\<rparr>)
       (make_client_factory env_verbose ''agent/1.0'' None) (Str ''east'') [] Map.empty
     = Inr (base_init HookedAuroraClientAPI east []
             [''user_agent'' \<mapsto> Str ''agent/1.0'', ''verbose'' \<mapsto> Bool True])"
    by (simp add: factory_call_known [OF a] factory_keywords c)
  from verbosity_read_once [where e = env_verbose and ?o1.0 = Map.empty
      and ?o2.0 = "[''verbosity'' \<mapsto> Str ''normal'']" and ua = "''agent/1.0''" and eh = None
      and k = "Str ''east''" and args = "[]" and kw = Map.empty
      and cl = "base_init HookedAuroraClientAPI east []
             [''user_agent'' \<mapsto> Str ''agent/1.0'', ''verbose'' \<mapsto> Bool True]"]
  show ?thesis using call c by simp
qed

text \<open>
  Claim C8, as the spec states it, fails in its last part: a factory created with no
  ambient verbosity captures false, and yet produces a verbose client when the call passes
  \<open>verbose=True\<close>.
\<close>

theorem quiet_factory_verbose_client_counterexample:
  "options env_quiet ''verbosity'' = None
   \<and> partial_call env_quiet (make_client_factory env_quiet ''agent/1.0'' None) (Str ''west'') []
        [''verbose'' \<mapsto> Bool True]
     = Inr (base_init HookedAuroraClientAPI west []
             [''user_agent'' \<mapsto> Str ''agent/1.0'', ''verbose'' \<mapsto> Bool True])
   \<and> client_verbose (base_init HookedAuroraClientAPI west []
             [''user_agent'' \<mapsto> Str ''agent/1.0'', ''verbose'' \<mapsto> Bool True])
     = Some (Bool True)"
proof -
  have a: "CLUSTERS env_quiet (Str ''west'') = Some west"
    by (simp add: env_quiet_def registry0_def)
  have c: "options env_quiet ''verbosity'' = None" by (simp add: env_quiet_def)
  have m: "[''user_agent'' \<mapsto> Str ''agent/1.0'', ''verbose'' \<mapsto> Bool False]
             ++ [''verbose'' \<mapsto> Bool True]
           = [''user_agent'' \<mapsto> Str ''agent/1.0'', ''verbose'' \<mapsto> Bool True]"
    by (rule ext) (simp add: map_add_def)
  show ?thesis
    by (simp add: factory_call_known [OF a] factory_keywords c m
        client_verbose_def base_init_def)
qed

text \<open>
  Claim C8, amended. The verbose flag captured at factory creation is true exactly when
  the ambient verbosity setting is the string verbose. An absent setting reads as normal:
  the captured flag is then false, and every client the factory produces from a call
  without a \<open>verbose\<close> keyword, every client of \<open>make_client\<close> among them, is
  non-verbose.
\<close>

theorem verbose_flag:
  "partial_keywords (make_client_factory e ua eh) ''verbose''
     = Some (Bool (options e ''verbosity'' = Some (Str ''verbose'')))
   \<and> (options e ''verbosity'' = None \<longrightarrow>
        getattr (options e) ''verbosity'' (Str ''normal'') = Str ''normal''
        \<and> partial_keywords (make_client_factory e ua eh) ''verbose'' = Some (Bool False)
        \<and> (kw ''verbose'' = None \<longrightarrow>
             partial_call e1 (make_client_factory e ua eh) k args kw = Inr cl \<longrightarrow>
             client_verbose cl = Some (Bool False))
        \<and> (make_client e r ua eh = Inr cl' \<longrightarrow> client_verbose cl' = Some (Bool False)))"
proof -
  have flag: "partial_keywords (make_client_factory e ua eh) ''verbose''
     = Some (Bool (options e ''verbosity'' = Some (Str ''verbose'')))"
    by (simp add: factory_keywords)
  have call: "client_verbose c = Some (Bool False)"
    if unset: "options e ''verbosity'' = None" and nokw: "kw' ''verbose'' = None"
      and ok: "partial_call e' (make_client_factory e ua eh') k' args' kw' = Inr c"
    for e' eh' k' args' kw' c
  proof -
    from factory_call_result [OF ok]
    have "client_kw c = partial_keywords (make_client_factory e ua eh') ++ kw'"
      by (auto simp: base_init_def)
    with unset nokw show ?thesis
      by (simp add: client_verbose_def factory_keywords map_add_def)
  qed
  have mk: "client_verbose cl' = Some (Bool False)"
    if unset: "options e ''verbosity'' = None" and ok: "make_client e r ua eh = Inr cl'"
    using call [OF unset _ ok [unfolded make_client_unfold]] by simp
  show ?thesis
    using flag call [of kw e1 eh k args cl] mk by (simp add: getattr_def)
qed

text \<open>
  Witness for C8: the captured flag in the verbose and in the quiet environment, and the
  clients of a factory created in the quiet one.
\<close>

theorem verbose_flag_witness:
  "partial_keywords (make_client_factory env_verbose ''agent/1.0'' None) ''verbose''
     = Some (Bool True)
   \<and> partial_keywords (make_client_factory env_quiet ''agent/1.0'' None) ''verbose''
     = Some (Bool False)
   \<and> options env_quiet ''verbosity'' = None
   \<and> (Map.empty :: string \<rightharpoonup> pyval) ''verbose'' = None
   \<and> partial_call env_verbose (make_client_factory env_quiet ''agent/1.0'' None) (Str ''west'')
        [] Map.empty
      = Inr (base_init HookedAuroraClientAPI west []
              [''user_agent'' \<mapsto> Str ''agent/1.0'', ''verbose'' \<mapsto> Bool False])
   \<and> make_client env_quiet (Obj west) ''agent/1.0'' None
      = Inr (base_init HookedAuroraClientAPI west []
              [''user_agent'' \<mapsto> Str ''agent/1.0'', ''verbose'' \<mapsto> Bool False])
   \<and> client_verbose (base_init HookedAuroraClientAPI west []
              [''user_agent'' \<mapsto> Str ''agent/1.0'', ''verbose'' \<mapsto> Bool False])
      = Some (Bool False)"
proof -
  have a: "CLUSTERS env_verbose (Str ''west'') = Some west"
    by (simp add: env_verbose_def registry0_def)
  have a': "CLUSTERS env_quiet (Str ''west'') = Some west"
    by (simp add: env_quiet_def registry0_def)
  have c: "options env_quiet ''verbosity'' = None" by (simp add: env_quiet_def)
  have c': "options env_verbose ''verbosity'' = Some (Str ''verbose'')"
    by (simp add: env_verbose_def)
  have n: "name west = ''west''" by (simp add: west_def)
  have call: "partial_call env_verbose (make_client_factory env_quiet ''agent/1.0'' None)
        (Str ''west'') [] Map.empty
      = Inr (base_init HookedAuroraClientAPI west []
              [''user_agent'' \<mapsto> Str ''agent/1.0'', ''verbose'' \<mapsto> Bool False])"
    by (simp add: factory_call_known [OF a] factory_keywords c)
  have mk: "make_client env_quiet (Obj west) ''agent/1.0'' None
      = Inr (base_init HookedAuroraClientAPI west []
              [''user_agent'' \<mapsto> Str ''agent/1.0'', ''verbose'' \<mapsto> Bool False])"
    by (simp add: make_client_unfold n factory_call_known [OF a'] factory_keywords c)
  from verbose_flag [of env_verbose "''agent/1.0''" None]
  have v: "partial_keywords (make_client_factory env_verbose ''agent/1.0'' None) ''verbose''
     = Some (Bool True)" using c' by simp
  from verbose_flag [of env_quiet "''agent/1.0''" None Map.empty env_verbose "Str ''west''" "[]"
      "base_init HookedAuroraClientAPI west []
              [''user_agent'' \<mapsto> Str ''agent/1.0'', ''verbose'' \<mapsto> Bool False]"
      "Obj west"
      "base_init HookedAuroraClientAPI west []
              [''user_agent'' \<mapsto> Str ''agent/1.0'', ''verbose'' \<mapsto> Bool False]"]
  show ?thesis using v c call mk by simp
qed

subsection \<open>make\_client as a composition\<close>

text \<open>
  Claim C9. \<open>make_client\<close> is a fresh factory for the same user agent and hook choice,
  applied at once to the reference with its name extracted; and it is the spec's
  create\_client, a function of the registry, the ambient verbosity setting and the
  arguments of the call alone: nothing of an earlier call enters a later one.
\<close>

theorem make_client_is_factory_applied:
  "make_client e r ua eh
     = partial_call e (make_client_factory e ua eh) (reference_name_spec r) [] Map.empty
   \<and> make_client e r ua eh
     = create_client_spec (CLUSTERS e) (options e ''verbosity'') r ua
         (case eh of None \<Rightarrow> True | Some b \<Rightarrow> b)"
proof -
  have f: "make_client_factory e ua (Some (case eh of None \<Rightarrow> True | Some b \<Rightarrow> b))
          = make_client_factory e ua eh"
    by (cases eh) (simp_all add: make_client_factory_def)
  have r: "reference_name_spec r = dot_name r"
    by (cases r) (simp_all add: reference_name_spec_def)
  have one: "make_client e r ua eh
     = partial_call e (make_client_factory e ua eh) (reference_name_spec r) [] Map.empty"
    by (simp add: make_client_unfold f r)
  have v: "((case options e ''verbosity'' of None \<Rightarrow> Str ''normal'' | Some v \<Rightarrow> v) = Str ''verbose'')
             = (options e ''verbosity'' = Some (Str ''verbose''))"
    by (simp split: option.split)
  have two: "partial_call e (make_client_factory e ua eh) (reference_name_spec r) [] Map.empty
     = create_client_spec (CLUSTERS e) (options e ''verbosity'') r ua
         (case eh of None \<Rightarrow> True | Some b \<Rightarrow> b)"
  proof (cases "CLUSTERS e (reference_name_spec r)")
    case None
    then show ?thesis
      by (simp add: factory_call_unknown create_client_spec_def bound_constructor_spec_def)
  next
    case (Some d)
    then show ?thesis
      by (cases eh)
        (auto simp: factory_call_known create_client_spec_def bound_constructor_spec_def
          create_factory_spec_def base_init_def factory_keywords v)
  qed
  from one two show ?thesis by simp
qed

end
